theory Spec2Isabelle
  imports Main
begin

section \<open>Curve calculator (database.py)\<close>

text \<open>
  Python integers are unbounded, so levels, experience totals and hit points are \<open>int\<close>.
  The body of the \<^verbatim>\<open>for lvl in range(2, level + 1)\<close> loop of
  \<^verbatim>\<open>calculate_xp_for_level\<close> adds one of three constants to the running total.
\<close>

definition xp_step :: "int \<Rightarrow> int \<Rightarrow> int" where
  "xp_step lvl total_xp =
     (if lvl \<le> 16 then total_xp + 60
      else if lvl \<le> 36 then total_xp + 90
      else total_xp + 120)"

text \<open>\<^verbatim>\<open>range(2, level + 1)\<close> is the list \<open>[2..level]\<close>, empty when \<open>level < 2\<close>.\<close>

definition calculate_xp_for_level :: "int \<Rightarrow> int" where
  "calculate_xp_for_level level =
     (if level = 1 then 0 else fold xp_step [2..level] 0)"

text \<open>
  \<^verbatim>\<open>calculate_level_from_xp\<close> is a \<^verbatim>\<open>while\<close> loop with no bound written in the
  source; the model lets it diverge (\<open>None\<close>) and termination is proved below.
\<close>

partial_function (option) level_loop :: "int \<Rightarrow> int \<Rightarrow> int option" where
  "level_loop xp level =
     (if calculate_xp_for_level (level + 1) \<le> xp then level_loop xp (level + 1)
      else Some level)"

declare level_loop.simps [code]

definition calculate_level_from_xp :: "int \<Rightarrow> int option" where
  "calculate_level_from_xp xp = level_loop xp 1"

text \<open>The \<^verbatim>\<open>class_hp\<close> dictionary literal of \<^verbatim>\<open>calculate_max_hp\<close>: (base, per_level).\<close>

definition class_hp :: "string \<Rightarrow> (int \<times> int) option" where
  "class_hp = map_of
     [(''joy_keeper'', (80, 8)),
      (''chud_warrior'', (120, 12)),
      (''achievement_hunter'', (90, 9)),
      (''pit_wizard'', (70, 7)),
      (''gladiator_of_the_pit'', (110, 11))]"

text \<open>
  \<^verbatim>\<open>user_class\<close> is \<^verbatim>\<open>Optional[str]\<close>; Python's \<^verbatim>\<open>not user_class\<close> holds for
  \<^verbatim>\<open>None\<close> and for the empty string.
\<close>

definition calculate_max_hp :: "int \<Rightarrow> string option \<Rightarrow> int" where
  "calculate_max_hp level user_class =
     (case user_class of
        None \<Rightarrow> level * 10
      | Some c \<Rightarrow>
          if c = [] \<or> c = ''peasant'' \<or> level < 3 then level * 10
          else (case class_hp c of
                  Some (base, per_level) \<Rightarrow> base + (level - 3) * per_level
                | None \<Rightarrow> level * 10))"

text \<open>
  The experience curve as the specification words it: level 1 costs nothing, and each
  step from 2 up to the target costs 60 (steps 2..16), 90 (steps 17..36) or 120 (beyond 36).
\<close>

definition spec_step_cost :: "int \<Rightarrow> int" where
  "spec_step_cost s =
     (if 2 \<le> s \<and> s \<le> 16 then 60
      else if 17 \<le> s \<and> s \<le> 36 then 90
      else if 36 < s then 120
      else 0)"

text \<open>Closed form of the running total.\<close>

definition xp_closed :: "int \<Rightarrow> int" where
  "xp_closed level =
     (if level \<le> 1 then 0
      else if level \<le> 16 then 60 * (level - 1)
      else if level \<le> 36 then 900 + 90 * (level - 16)
      else 2700 + 120 * (level - 36))"

text \<open>Closed form of the level reached with a given experience total.\<close>

definition level_closed :: "int \<Rightarrow> int" where
  "level_closed x =
     (if x < 60 then 1
      else if x < 900 then x div 60 + 1
      else if x < 2700 then (x - 900) div 90 + 16
      else (x - 2700) div 120 + 36)"

section \<open>Data model\<close>

text \<open>
  A \<^verbatim>\<open>datetime.date\<close> is modelled by its ordinal (day number), so
  \<^verbatim>\<open>today - timedelta(days=1)\<close> is \<open>today - 1\<close>. The code reads the clock through
  \<^verbatim>\<open>get_today_date()\<close>; every call is one date argument of the model, so a function that
  calls it several times takes several dates, which differ when midnight passes in between.
\<close>

type_synonym date = int

text \<open>
  A row of the \<^verbatim>\<open>users\<close> table, as the dictionary \<^verbatim>\<open>get_user\<close> returns. The
  timestamps \<^verbatim>\<open>created_at\<close> and \<^verbatim>\<open>updated_at\<close> are never read by the code.
\<close>

record user =
  discord_id :: int
  username :: string
  level :: int
  xp :: int
  hp :: int
  max_hp :: int
  coins :: int
  streak :: int
  depth :: int
  user_class :: "string option"
  last_joy_sent :: "date option"
  last_coin_claim :: "date option"

text \<open>The single row of \<^verbatim>\<open>server_stats\<close> (\<^verbatim>\<open>CHECK (id = 1)\<close>, inserted by \<^verbatim>\<open>init_database\<close>).\<close>

record server_stats =
  server_streak :: int
  server_last_joy_sent :: "date option"
  total_monsters_killed :: int

text \<open>
  The tables the streak logic touches. \<^verbatim>\<open>daily_senders\<close> is kept as the list of its rows
  in insertion order; its primary key \<^verbatim>\<open>(discord_id, date)\<close> is enforced by
  \<open>add_daily_sender\<close> below.
\<close>

record database =
  users :: "int \<Rightarrow> user option"
  daily_senders :: "(int \<times> date) list"
  stats :: server_stats

text \<open>
  Values read from \<^verbatim>\<open>config/config.json\<close> and \<^verbatim>\<open>data/classes.json\<close>, which are not part
  of the sources: \<^verbatim>\<open>PENALTIES['wrong_channel_xp_loss']\<close>, \<^verbatim>\<open>REWARDS['joy_base_xp']\<close>,
  \<^verbatim>\<open>REWARDS['daily_coins_per_level']\<close>, and \<open>class_tier c l\<close> for
  \<^verbatim>\<open>get_class_tier_name(c, l)['tier']\<close>.
\<close>

record config =
  wrong_channel_xp_loss :: int
  joy_base_xp :: int
  daily_coins_per_level :: int
  class_tier :: "string option \<Rightarrow> int \<Rightarrow> int"

datatype error = NonTermination | TypeError | UniqueViolation

section \<open>User management (database.py)\<close>

definition get_user :: "database \<Rightarrow> int \<Rightarrow> user option" where
  "get_user db uid = users db uid"

text \<open>
  The row that \<^verbatim>\<open>create_user\<close> inserts: the \<^verbatim>\<open>INSERT\<close> names seven columns, the others
  take the defaults of the schema. A second row with the same primary key is refused by the
  table.
\<close>

definition default_user :: "int \<Rightarrow> string \<Rightarrow> user" where
  "default_user uid name =
     \<lparr>discord_id = uid, username = name, level = 1, xp = 0, hp = 100, max_hp = 100,
      coins = 0, streak = 0, depth = 0, user_class = None, last_joy_sent = None,
      last_coin_claim = None\<rparr>"

definition create_user :: "database \<Rightarrow> int \<Rightarrow> string \<Rightarrow> error + (database \<times> user)" where
  "create_user db uid name =
     (case users db uid of
        Some _ \<Rightarrow> Inl UniqueViolation
      | None \<Rightarrow>
          let row = default_user uid name
          in Inr (db\<lparr>users := (users db)(uid \<mapsto> row)\<rparr>, row))"

definition get_or_create_user :: "database \<Rightarrow> int \<Rightarrow> string \<Rightarrow> error + (database \<times> user)" where
  "get_or_create_user db uid name =
     (case get_user db uid of
        None \<Rightarrow> create_user db uid name
      | Some user \<Rightarrow> Inr (db, user))"

text \<open>
  \<^verbatim>\<open>update_user(discord_id, **kwargs)\<close>: the keyword arguments are the function \<open>f\<close> that
  sets the named columns; \<^verbatim>\<open>UPDATE ... WHERE discord_id = %s\<close> touches no row when the
  user is absent.
\<close>

definition update_user :: "database \<Rightarrow> int \<Rightarrow> (user \<Rightarrow> user) \<Rightarrow> database" where
  "update_user db uid f =
     (case users db uid of
        None \<Rightarrow> db
      | Some u \<Rightarrow> db\<lparr>users := (users db)(uid \<mapsto> f u)\<rparr>)"

datatype xp_result =
  XpResult (res_old_level: int) (res_new_level: int) (res_xp: int)
           (res_leveled_up: bool) (res_max_hp: int)

definition add_xp :: "database \<Rightarrow> int \<Rightarrow> int \<Rightarrow> error + (database \<times> xp_result option)" where
  "add_xp db uid xp_amount =
     (case get_user db uid of
        None \<Rightarrow> Inr (db, None)
      | Some user \<Rightarrow>
          let new_xp = max 0 (xp user + xp_amount);
              old_level = level user
          in (case calculate_level_from_xp new_xp of
                None \<Rightarrow> Inl NonTermination
              | Some new_level \<Rightarrow>
                  let new_max_hp =
                        (if new_level \<noteq> old_level
                         then calculate_max_hp new_level (user_class user)
                         else max_hp user)
                  in Inr (update_user db uid
                            (\<lambda>u. u\<lparr>xp := new_xp, level := new_level, max_hp := new_max_hp\<rparr>),
                          Some (XpResult old_level new_level new_xp (new_level > old_level)
                                  new_max_hp))))"

datatype damage_result =
  DamageResult (dmg_old_hp: int) (dmg_new_hp: int) (dmg_damage: int) (dmg_died: bool)

definition damage_user :: "database \<Rightarrow> int \<Rightarrow> int \<Rightarrow> database \<times> damage_result option" where
  "damage_user db uid damage =
     (case get_user db uid of
        None \<Rightarrow> (db, None)
      | Some user \<Rightarrow>
          let new_hp = max 0 (hp user - damage);
              died = (new_hp = 0)
          in (update_user db uid (\<lambda>u. u\<lparr>hp := new_hp\<rparr>),
              Some (DamageResult (hp user) new_hp damage died)))"

datatype heal_result =
  HealResult (heal_old_hp: int) (heal_new_hp: int) (heal_healed: int)

definition heal_user :: "database \<Rightarrow> int \<Rightarrow> int \<Rightarrow> database \<times> heal_result option" where
  "heal_user db uid amount =
     (case get_user db uid of
        None \<Rightarrow> (db, None)
      | Some user \<Rightarrow>
          let new_hp = min (max_hp user) (hp user + amount)
          in (update_user db uid (\<lambda>u. u\<lparr>hp := new_hp\<rparr>),
              Some (HealResult (hp user) new_hp (new_hp - hp user))))"

definition set_user_class :: "database \<Rightarrow> int \<Rightarrow> string \<Rightarrow> database" where
  "set_user_class db uid class_name =
     (case get_user db uid of
        None \<Rightarrow> db
      | Some user \<Rightarrow>
          let new_max_hp = calculate_max_hp (level user) (Some class_name)
          in update_user db uid
               (\<lambda>u. u\<lparr>user_class := Some class_name, max_hp := new_max_hp, hp := new_max_hp\<rparr>))"

section \<open>Streak management (database.py)\<close>

definition check_daily_sender :: "database \<Rightarrow> int \<Rightarrow> date \<Rightarrow> bool" where
  "check_daily_sender db uid check_date = ((uid, check_date) \<in> set (daily_senders db))"

text \<open>\<^verbatim>\<open>INSERT ... ON CONFLICT (discord_id, date) DO NOTHING\<close>.\<close>

definition add_daily_sender :: "database \<Rightarrow> int \<Rightarrow> date \<Rightarrow> database" where
  "add_daily_sender db uid send_date =
     (if (uid, send_date) \<in> set (daily_senders db) then db
      else db\<lparr>daily_senders := daily_senders db @ [(uid, send_date)]\<rparr>)"

definition get_server_stats :: "database \<Rightarrow> server_stats" where
  "get_server_stats db = stats db"

definition update_server_stats :: "database \<Rightarrow> (server_stats \<Rightarrow> server_stats) \<Rightarrow> database" where
  "update_server_stats db f = db\<lparr>stats := f (stats db)\<rparr>"

text \<open>\<^verbatim>\<open>DELETE FROM users WHERE discord_id = %s\<close>: nothing happens when there is no such row.\<close>

definition reset_user :: "database \<Rightarrow> int \<Rightarrow> database" where
  "reset_user db uid = db\<lparr>users := (users db)(uid := None)\<rparr>"

section \<open>The Joy sticker handler (joy_streak_bot.py)\<close>

text \<open>What the handler sends to the channel, in the order it sends it.\<close>

datatype reaction = BrokenHeart | CheckMark

datatype response_part =
  XpEarned int
| LevelUp int
| ClassEvolution int
| ClassSelectionUnlocked
| Milestone int

datatype message =
  Reaction reaction
| DoubleJoyBreak int
| MissedDayBreak int int
| ServerStreakBroken int
| Response "response_part list"

text \<open>
  The block "Check if user missed yesterday": \<open>user\<close> is the dictionary read at the top of
  the handler. The result of \<^verbatim>\<open>add_xp\<close> is stored and not used here.
\<close>

definition missed_day_check ::
  "config \<Rightarrow> database \<Rightarrow> user \<Rightarrow> int \<Rightarrow> date \<Rightarrow> date \<Rightarrow> error + (database \<times> message list)" where
  "missed_day_check cfg db user user_id today yesterday =
     (case last_joy_sent user of
        None \<Rightarrow> Inr (db, [])
      | Some last_sent \<Rightarrow>
          if last_sent \<noteq> yesterday \<and> last_sent \<noteq> today then
            (let old_streak = streak user;
                 db1 = update_user db user_id (\<lambda>u. u\<lparr>streak := 0\<rparr>)
             in (case add_xp db1 user_id (- wrong_channel_xp_loss cfg) of
                   Inl e \<Rightarrow> Inl e
                 | Inr (db2, result) \<Rightarrow>
                     Inr (db2, [MissedDayBreak old_streak (wrong_channel_xp_loss cfg)])))
          else Inr (db, []))"

text \<open>
  The block "Update server streak": \<open>today\<close> is the date read at the top of the handler,
  \<open>now3\<close> the date that \<^verbatim>\<open>get_today_date()\<close> returns inside the block.
\<close>

definition update_server_streak :: "database \<Rightarrow> date \<Rightarrow> date \<Rightarrow> database \<times> message list" where
  "update_server_streak db today now3 =
     (let server_stats = get_server_stats db
      in if server_last_joy_sent server_stats \<noteq> Some today then
           (let yesterday_date = now3 - 1
            in if server_last_joy_sent server_stats = Some yesterday_date then
                 (update_server_stats db
                    (\<lambda>s. s\<lparr>server_streak := server_streak server_stats + 1,
                            server_last_joy_sent := Some today\<rparr>), [])
               else
                 (update_server_stats db
                    (\<lambda>s. s\<lparr>server_streak := 1, server_last_joy_sent := Some today\<rparr>),
                  if server_streak server_stats > 0
                  then [ServerStreakBroken (server_streak server_stats)] else []))
         else (db, []))"

text \<open>The block "Build response"; the parts are joined into one message.\<close>

definition build_response ::
  "config \<Rightarrow> user \<Rightarrow> int \<Rightarrow> int \<Rightarrow> int \<Rightarrow> bool \<Rightarrow> int \<Rightarrow> response_part list" where
  "build_response cfg user xp_reward old_level new_level is_milestone new_streak =
     [XpEarned xp_reward]
     @ (if new_level > old_level then
          [LevelUp new_level]
          @ (if class_tier cfg (user_class user) new_level
                  > class_tier cfg (user_class user) old_level
             then [ClassEvolution (class_tier cfg (user_class user) new_level)] else [])
          @ (if old_level < 3 \<and> new_level \<ge> 3 then [ClassSelectionUnlocked] else [])
        else [])
     @ (if is_milestone then [Milestone new_streak] else [])"

text \<open>
  \<^verbatim>\<open>handle_joy_sticker\<close>. It calls \<^verbatim>\<open>get_today_date()\<close> three times: \<open>today\<close> at the top,
  \<open>now2\<close> for \<^verbatim>\<open>yesterday\<close> in the missed-day check, \<open>now3\<close> for \<^verbatim>\<open>yesterday_date\<close> in
  the server streak block. Every \<^verbatim>\<open>db.\<close> call commits on its own. \<^verbatim>\<open>result['new_level']\<close>
  raises \<^verbatim>\<open>TypeError\<close> when \<^verbatim>\<open>add_xp\<close> returned \<^verbatim>\<open>None\<close>.
\<close>

definition handle_joy_sticker ::
  "config \<Rightarrow> database \<Rightarrow> int \<Rightarrow> string \<Rightarrow> date \<Rightarrow> date \<Rightarrow> date
     \<Rightarrow> error + (database \<times> message list)" where
  "handle_joy_sticker cfg db user_id name today now2 now3 =
     (case get_or_create_user db user_id name of
        Inl e \<Rightarrow> Inl e
      | Inr (db1, user) \<Rightarrow>
          if check_daily_sender db1 user_id today then
            (let old_streak = streak user;
                 db2 = update_user db1 user_id (\<lambda>u. u\<lparr>streak := 0\<rparr>)
             in Inr (db2, [Reaction BrokenHeart, DoubleJoyBreak old_streak]))
          else
            (let db2 = add_daily_sender db1 user_id today;
                 yesterday = now2 - 1
             in (case missed_day_check cfg db2 user user_id today yesterday of
                   Inl e \<Rightarrow> Inl e
                 | Inr (db3, broke) \<Rightarrow>
                     let db4 = update_user db3 user_id (\<lambda>u. u\<lparr>last_joy_sent := Some today\<rparr>);
                         new_streak = streak user + 1;
                         db5 = update_user db4 user_id (\<lambda>u. u\<lparr>streak := new_streak\<rparr>);
                         xp_reward = joy_base_xp cfg;
                         is_milestone = (new_streak \<in> set [7, 30, 100, 365]);
                         old_level = level user
                     in (case add_xp db5 user_id xp_reward of
                           Inl e \<Rightarrow> Inl e
                         | Inr (db6, None) \<Rightarrow> Inl TypeError
                         | Inr (db6, Some result) \<Rightarrow>
                             let new_level = res_new_level result;
                                 (db7, server_broke) = update_server_streak db6 today now3
                             in Inr (db7,
                                  broke @ server_broke
                                  @ [Reaction CheckMark,
                                     Response (build_response cfg user xp_reward old_level
                                                 new_level is_milestone new_streak)])))))"

text \<open>
  \<^verbatim>\<open>claim_coins\<close> after its channel check, and the admin command \<^verbatim>\<open>give_xp\<close> after its
  permission check; what \<^verbatim>\<open>give_xp\<close> does with the returned dictionary is display only.
\<close>

datatype claim_result = AlreadyClaimed | Claimed int int

definition claim_coins ::
  "config \<Rightarrow> database \<Rightarrow> int \<Rightarrow> string \<Rightarrow> date \<Rightarrow> error + (database \<times> claim_result)" where
  "claim_coins cfg db uid name today =
     (case get_or_create_user db uid name of
        Inl e \<Rightarrow> Inl e
      | Inr (db1, user) \<Rightarrow>
          if last_coin_claim user = Some today then Inr (db1, AlreadyClaimed)
          else
            (let coins_earned = level user * daily_coins_per_level cfg;
                 new_coins = coins user + coins_earned
             in Inr (update_user db1 uid
                       (\<lambda>u. u\<lparr>coins := new_coins, last_coin_claim := Some today\<rparr>),
                     Claimed coins_earned new_coins)))"

definition give_xp ::
  "database \<Rightarrow> int \<Rightarrow> string \<Rightarrow> int \<Rightarrow> error + (database \<times> xp_result option)" where
  "give_xp db uid name amount =
     (case get_or_create_user db uid name of
        Inl e \<Rightarrow> Inl e
      | Inr (db1, user) \<Rightarrow> add_xp db1 uid amount)"

text \<open>Observers of a handler's outcome.\<close>

definition db_after :: "error + (database \<times> 'a) \<Rightarrow> database option" where
  "db_after r = (case r of Inl e \<Rightarrow> None | Inr (db, out) \<Rightarrow> Some db)"

definition user_after :: "error + (database \<times> 'a) \<Rightarrow> int \<Rightarrow> user option" where
  "user_after r uid = (case r of Inl e \<Rightarrow> None | Inr (db, out) \<Rightarrow> users db uid)"

definition sent :: "error + (database \<times> message list) \<Rightarrow> message list" where
  "sent r = (case r of Inl e \<Rightarrow> [] | Inr (db, out) \<Rightarrow> out)"

text \<open>The invariant of the User entity, in its two parts.\<close>

definition max_hp_exact :: "user \<Rightarrow> bool" where
  "max_hp_exact u = (max_hp u = calculate_max_hp (level u) (user_class u))"

definition hp_in_range :: "user \<Rightarrow> bool" where
  "hp_in_range u = (0 \<le> hp u \<and> hp u \<le> max_hp u)"

text \<open>
  The row \<^verbatim>\<open>add_xp\<close> writes and the dictionary it returns, with the loop replaced by
  its closed form (\<open>add_xp_eq\<close> below).
\<close>

definition xp_row :: "user \<Rightarrow> int \<Rightarrow> user" where
  "xp_row u a =
     (let new_xp = max 0 (xp u + a); new_level = level_closed new_xp
      in u\<lparr>xp := new_xp, level := new_level,
            max_hp := (if new_level \<noteq> level u then calculate_max_hp new_level (user_class u)
                       else max_hp u)\<rparr>)"

definition xp_outcome :: "user \<Rightarrow> int \<Rightarrow> xp_result" where
  "xp_outcome u a =
     XpResult (level u) (level (xp_row u a)) (xp (xp_row u a)) (level (xp_row u a) > level u)
       (max_hp (xp_row u a))"

text \<open>
  The condition of the missed-day branch, on the dictionary read at the top: \<open>today\<close> is
  the first clock read, \<open>now2\<close> the one that gives \<^verbatim>\<open>yesterday\<close>.
\<close>

definition is_gap :: "user \<Rightarrow> date \<Rightarrow> date \<Rightarrow> bool" where
  "is_gap u today now2 =
     (case last_joy_sent u of None \<Rightarrow> False | Some d \<Rightarrow> d \<noteq> now2 - 1 \<and> d \<noteq> today)"

text \<open>The row the handler leaves for an event that is not a double submission.\<close>

definition accepted_row :: "config \<Rightarrow> user \<Rightarrow> date \<Rightarrow> date \<Rightarrow> user" where
  "accepted_row cfg u today now2 =
     xp_row ((if is_gap u today now2
              then xp_row (u\<lparr>streak := 0\<rparr>) (- wrong_channel_xp_loss cfg)
              else u)
               \<lparr>last_joy_sent := Some today, streak := streak u + 1\<rparr>)
            (joy_base_xp cfg)"

text \<open>
  Two events of the same day, handled one after the other, with every clock read of both
  giving that day.
\<close>

definition two_events ::
  "config \<Rightarrow> database \<Rightarrow> int \<Rightarrow> string \<Rightarrow> int \<Rightarrow> string \<Rightarrow> date
     \<Rightarrow> error + (database \<times> message list)" where
  "two_events cfg db uid1 name1 uid2 name2 today =
     (case handle_joy_sticker cfg db uid1 name1 today today today of
        Inl e \<Rightarrow> Inl e
      | Inr (db1, out1) \<Rightarrow>
          (case handle_joy_sticker cfg db1 uid2 name2 today today today of
             Inl e \<Rightarrow> Inl e
           | Inr (db2, out2) \<Rightarrow> Inr (db2, out1 @ out2)))"

text \<open>Concrete states for the examples below.\<close>

definition example_config :: config where
  "example_config =
     \<lparr>wrong_channel_xp_loss = 10, joy_base_xp = 20, daily_coins_per_level = 1,
      class_tier = (\<lambda>c l. 1)\<rparr>"

definition example_user :: user where
  "example_user =
     \<lparr>discord_id = 1, username = ''ann'', level = 2, xp = 100, hp = 20, max_hp = 20,
      coins = 0, streak = 12, depth = 0, user_class = None, last_joy_sent = Some 7,
      last_coin_claim = None\<rparr>"

definition example_db :: database where
  "example_db =
     \<lparr>users = (\<lambda>uid. if uid = 1 then Some example_user else None),
      daily_senders = [(1, 7)],
      stats = \<lparr>server_streak = 3, server_last_joy_sent = Some 7, total_monsters_killed = 0\<rparr>\<rparr>"

text \<open>
  A state in which user 1 already has a ledger row for day 10 while the community streak
  was last advanced on day 9.
\<close>

definition lagging_db :: database where
  "lagging_db =
     example_db\<lparr>daily_senders := [(1, 7), (1, 10)],
                  stats := \<lparr>server_streak = 3, server_last_joy_sent = Some 9,
                             total_monsters_killed = 0\<rparr>\<rparr>"

section \<open>Properties of the curve\<close>

lemma xp_for_level_le_1: "n \<le> 1 \<Longrightarrow> calculate_xp_for_level n = 0"
  by (simp add: calculate_xp_for_level_def)

lemma xp_for_level_step:
  assumes "1 \<le> n"
  shows "calculate_xp_for_level (n + 1) = xp_step (n + 1) (calculate_xp_for_level n)"
proof -
  have "[2..n + 1] = [2..n] @ [n + 1]"
    using assms upto_rec2 [of 2 "n + 1"] by simp
  then have "fold xp_step [2..n + 1] 0 = xp_step (n + 1) (fold xp_step [2..n] 0)"
    by simp
  moreover have "fold xp_step [2..n] 0 = calculate_xp_for_level n"
    using assms by (cases "n = 1") (simp_all add: calculate_xp_for_level_def)
  ultimately show ?thesis
    using assms by (simp add: calculate_xp_for_level_def)
qed

lemma xp_for_level_closed: "calculate_xp_for_level n = xp_closed n"
proof (cases "n \<le> 1")
  case True
  then show ?thesis by (simp add: xp_for_level_le_1 xp_closed_def)
next
  case False
  then have "1 \<le> n" by simp
  then show ?thesis
  proof (induction n rule: int_ge_induct)
    case base
    show ?case by (simp add: xp_for_level_le_1 xp_closed_def)
  next
    case (step i)
    have "calculate_xp_for_level (i + 1) = xp_step (i + 1) (xp_closed i)"
      using step by (simp add: xp_for_level_step)
    also have "\<dots> = xp_closed (i + 1)"
      using step.hyps by (simp add: xp_step_def xp_closed_def)
    finally show ?case .
  qed
qed

lemma xp_for_level_strict_step:
  "1 \<le> n \<Longrightarrow> calculate_xp_for_level n < calculate_xp_for_level (n + 1)"
  by (simp add: xp_for_level_closed xp_closed_def)

lemma xp_for_level_mono: "a \<le> b \<Longrightarrow> calculate_xp_for_level a \<le> calculate_xp_for_level b"
  by (simp add: xp_for_level_closed xp_closed_def)

lemma level_loop_exit:
  "x < calculate_xp_for_level (n + 1) \<Longrightarrow> level_loop x n = Some n"
  by (subst level_loop.simps) simp

lemma level_loop_reaches:
  assumes "n \<le> m" and "calculate_xp_for_level m \<le> x" and "x < calculate_xp_for_level (m + 1)"
  shows "level_loop x n = Some m"
  using assms
proof (induction "nat (m - n)" arbitrary: n)
  case 0
  then have "n = m" by simp
  with 0 show ?case by (simp add: level_loop_exit)
next
  case (Suc k)
  then have lt: "n < m" by linarith
  then have "calculate_xp_for_level (n + 1) \<le> calculate_xp_for_level m"
    by (simp add: xp_for_level_mono)
  with Suc.prems have step: "calculate_xp_for_level (n + 1) \<le> x" by linarith
  have "k = nat (m - (n + 1))" using Suc.hyps(2) by linarith
  moreover have "n + 1 \<le> m" using lt by simp
  ultimately have "level_loop x (n + 1) = Some m"
    using Suc.hyps(1) Suc.prems by blast
  with step show ?case by (subst level_loop.simps) simp
qed

lemma level_closed_ge_1: "1 \<le> level_closed x"
  unfolding level_closed_def by (auto simp: pos_imp_zdiv_nonneg_iff) 

lemma level_closed_lower: "0 \<le> x \<Longrightarrow> calculate_xp_for_level (level_closed x) \<le> x"
  unfolding level_closed_def xp_for_level_closed xp_closed_def
  by (simp; linarith)

lemma level_closed_upper: "x < calculate_xp_for_level (level_closed x + 1)"
  unfolding level_closed_def xp_for_level_closed xp_closed_def
  by (simp; linarith)

lemma calculate_level_from_xp_closed: "calculate_level_from_xp x = Some (level_closed x)"
proof (cases "x < 60")
  case True
  then have "x < calculate_xp_for_level (1 + 1)" by (simp add: xp_for_level_closed xp_closed_def)
  then have "level_loop x 1 = Some 1" by (rule level_loop_exit)
  with True show ?thesis by (simp add: calculate_level_from_xp_def level_closed_def)
next
  case False
  then have "0 \<le> x" by simp
  then show ?thesis
    unfolding calculate_level_from_xp_def
    by (intro level_loop_reaches level_closed_ge_1 level_closed_lower level_closed_upper)
qed

section \<open>Claims about the curve\<close>

lemma fold_xp_step_spec:
  "\<forall>s \<in> set xs. 2 \<le> s \<Longrightarrow> fold xp_step xs acc = acc + sum_list (map spec_step_cost xs)"
proof (induction xs arbitrary: acc)
  case Nil
  show ?case by simp
next
  case (Cons s xs)
  then have "2 \<le> s" by simp
  then have "xp_step s acc = acc + spec_step_cost s"
    by (simp add: xp_step_def spec_step_cost_def)
  moreover have "fold xp_step xs (xp_step s acc) = xp_step s acc + sum_list (map spec_step_cost xs)"
    using Cons by simp
  ultimately show ?case by simp
qed

lemma sum_list_upto: "sum_list (map f [a..b]) = (\<Sum>s = a..b. f s)"
  using sum_list_distinct_conv_sum_set [of "[a..b]" f] by simp

lemma xp_for_level_is_sum:
  "2 \<le> L \<Longrightarrow> calculate_xp_for_level L = (\<Sum>s = 2..L. spec_step_cost s)"
  by (simp add: calculate_xp_for_level_def fold_xp_step_spec sum_list_upto)

text \<open>
  Claim C6. \<^verbatim>\<open>calculate_xp_for_level\<close> returns 0 for level 1 and, for every target level
  \<open>L \<ge> 2\<close>, the sum of the per-step costs of the steps 2 up to \<open>L\<close>, where the steps
  2..16 cost 60 each, the steps 17..36 cost 90 each and the steps beyond 36 cost 120 each
  (\<open>spec_step_cost\<close>).
\<close>
theorem xp_for_level_running_total:
  "calculate_xp_for_level 1 = 0 \<and>
   (\<forall>L\<ge>2. calculate_xp_for_level L = (\<Sum>s = 2..L. spec_step_cost s))"
  by (simp add: xp_for_level_le_1 xp_for_level_is_sum)

theorem xp_for_level_running_total_witness:
  "(2::int) \<le> 20 \<and> calculate_xp_for_level 20 = (\<Sum>s = 2..20. spec_step_cost s) \<and>
   (\<Sum>s = 2..20. spec_step_cost s) = 1260"
proof -
  have "calculate_xp_for_level 20 = (\<Sum>s = 2..20. spec_step_cost s)"
    using xp_for_level_running_total by simp
  moreover have "(\<Sum>s = 2..20. spec_step_cost s) = 1260" by code_simp
  ultimately show ?thesis by simp
qed

text \<open>
  Claim C7. For every level \<open>L \<ge> 1\<close> the experience for level \<open>L + 1\<close> is strictly above
  the experience for level \<open>L\<close>, the level computed from the experience for level \<open>L\<close>
  is \<open>L\<close>, and for \<open>L > 1\<close> the level computed from one point less is \<open>L - 1\<close>.
\<close>
theorem curve_round_trip:
  "1 \<le> L \<Longrightarrow>
     calculate_xp_for_level L < calculate_xp_for_level (L + 1) \<and>
     calculate_level_from_xp (calculate_xp_for_level L) = Some L \<and>
     (1 < L \<longrightarrow> calculate_level_from_xp (calculate_xp_for_level L - 1) = Some (L - 1))"
proof (intro conjI impI)
  assume L: "1 \<le> L"
  show up: "calculate_xp_for_level L < calculate_xp_for_level (L + 1)"
    using L by (rule xp_for_level_strict_step)
  show "calculate_level_from_xp (calculate_xp_for_level L) = Some L"
    unfolding calculate_level_from_xp_def
    using L up by (intro level_loop_reaches) simp_all
  assume L1: "1 < L"
  then have "calculate_xp_for_level (L - 1) < calculate_xp_for_level (L - 1 + 1)"
    by (intro xp_for_level_strict_step) simp
  then have "calculate_xp_for_level (L - 1) \<le> calculate_xp_for_level L - 1" by simp
  then show "calculate_level_from_xp (calculate_xp_for_level L - 1) = Some (L - 1)"
    unfolding calculate_level_from_xp_def
    using L1 by (intro level_loop_reaches) simp_all
qed

theorem curve_round_trip_witness:
  "(1::int) \<le> 17 \<and> calculate_xp_for_level 17 = 990 \<and> calculate_xp_for_level 18 = 1080 \<and>
   calculate_level_from_xp 990 = Some 17 \<and> calculate_level_from_xp 989 = Some 16"
proof -
  have x: "calculate_xp_for_level 17 = 990" "calculate_xp_for_level 18 = 1080"
    by (simp_all add: xp_for_level_closed xp_closed_def)
  show ?thesis using curve_round_trip [of 17] by (simp add: x)
qed

text \<open>
  Claim C10. For every integer experience total, negative ones included, the loop of
  \<^verbatim>\<open>calculate_level_from_xp\<close> terminates and returns a level of at least 1; it stops at
  a level whose successor costs more than the total.
\<close>
theorem calculate_level_from_xp_terminates:
  "\<exists>L. calculate_level_from_xp x = Some L \<and> 1 \<le> L \<and> x < calculate_xp_for_level (L + 1)"
  using calculate_level_from_xp_closed level_closed_ge_1 level_closed_upper by blast

text \<open>
  Claim C8. \<^verbatim>\<open>calculate_max_hp\<close>: below level 3, with no class, or with the default class
  \<^verbatim>\<open>'peasant'\<close>, the maximum is level times 10; otherwise, for a class of the table with
  the pair (base, per_level), it is base + (level - 3) * per_level; a class that is not in
  the table gives level times 10. Level 5 with (80, 8) gives 96.
\<close>
theorem calculate_max_hp_cases:
  "(L < 3 \<or> c = None \<or> c = Some [] \<or> c = Some ''peasant'' \<longrightarrow> calculate_max_hp L c = L * 10) \<and>
   (3 \<le> L \<and> k \<noteq> [] \<and> k \<noteq> ''peasant'' \<and> class_hp k = Some (base, per_level) \<longrightarrow>
      calculate_max_hp L (Some k) = base + (L - 3) * per_level) \<and>
   (class_hp k = None \<longrightarrow> calculate_max_hp L (Some k) = L * 10) \<and>
   class_hp ''joy_keeper'' = Some (80, 8) \<and>
   calculate_max_hp 5 (Some ''joy_keeper'') = 96"
proof (intro conjI impI)
  show "class_hp ''joy_keeper'' = Some (80, 8)" by (simp add: class_hp_def)
  then show "calculate_max_hp 5 (Some ''joy_keeper'') = 96" by (simp add: calculate_max_hp_def)
qed (auto simp: calculate_max_hp_def split: option.splits)

theorem calculate_max_hp_cases_witness:
  "calculate_max_hp 2 (Some ''chud_warrior'') = 20 \<and>
   calculate_max_hp 7 None = 70 \<and>
   calculate_max_hp 7 (Some ''peasant'') = 70 \<and>
   class_hp ''pit_wizard'' = Some (70, 7) \<and>
   calculate_max_hp 10 (Some ''pit_wizard'') = 119 \<and>
   class_hp ''bard'' = None \<and>
   calculate_max_hp 10 (Some ''bard'') = 100"
proof -
  have a: "class_hp ''pit_wizard'' = Some (70, 7)" "class_hp ''bard'' = None"
    by (simp_all add: class_hp_def)
  show ?thesis
    using calculate_max_hp_cases [of 2 "Some ''chud_warrior''" "''bard''" 0 0]
      calculate_max_hp_cases [of 7 None "''bard''" 0 0]
      calculate_max_hp_cases [of 7 "Some ''peasant''" "''bard''" 0 0]
      calculate_max_hp_cases [of 10 None "''pit_wizard''" 70 7]
      calculate_max_hp_cases [of 10 None "''bard''" 0 0]
    by (simp add: a)
qed

section \<open>The handler, step by step\<close>

lemma add_xp_eq:
  "add_xp db uid a =
     (case users db uid of
        None \<Rightarrow> Inr (db, None)
      | Some u \<Rightarrow> Inr (db\<lparr>users := (users db)(uid \<mapsto> xp_row u a)\<rparr>, Some (xp_outcome u a)))"
  by (simp add: add_xp_def get_user_def calculate_level_from_xp_closed update_user_def
        xp_row_def xp_outcome_def Let_def split: option.splits)

lemma get_or_create_user_result:
  "get_or_create_user db uid name =
     Inr (db\<lparr>users := (users db)(uid \<mapsto>
                 (case users db uid of None \<Rightarrow> default_user uid name | Some v \<Rightarrow> v))\<rparr>,
          case users db uid of None \<Rightarrow> default_user uid name | Some v \<Rightarrow> v)"
  by (cases "users db uid")
     (simp_all add: get_or_create_user_def get_user_def create_user_def map_upd_triv Let_def)

lemma handle_accepted:
  assumes u: "u = (case users db uid of None \<Rightarrow> default_user uid name | Some v \<Rightarrow> v)"
    and fresh: "\<not> check_daily_sender db uid today"
  shows "handle_joy_sticker cfg db uid name today now2 now3 =
     (let db6 = db\<lparr>daily_senders := daily_senders db @ [(uid, today)],
                    users := (users db)(uid \<mapsto> accepted_row cfg u today now2)\<rparr>;
          (db7, server_broke) = update_server_streak db6 today now3
      in Inr (db7,
           (if is_gap u today now2 then [MissedDayBreak (streak u) (wrong_channel_xp_loss cfg)] else [])
           @ server_broke
           @ [Reaction CheckMark,
              Response (build_response cfg u (joy_base_xp cfg) (level u)
                          (level (accepted_row cfg u today now2))
                          (streak u + 1 \<in> set [7, 30, 100, 365]) (streak u + 1))]))"
proof -
  let ?db1 = "db\<lparr>users := (users db)(uid \<mapsto> u)\<rparr>"
  have g: "get_or_create_user db uid name = Inr (?db1, u)"
    using get_or_create_user_result [of db uid name] u by simp
  have nd: "(uid, today) \<notin> set (daily_senders db)"
    using fresh by (simp add: check_daily_sender_def)
  show ?thesis
  proof (cases "is_gap u today now2")
    case True
    then obtain d where d: "last_joy_sent u = Some d" "d \<noteq> now2 - 1" "d \<noteq> today"
      by (auto simp: is_gap_def split: option.splits)
    show ?thesis
      unfolding handle_joy_sticker_def g
      using True nd d
      by (simp add: check_daily_sender_def add_daily_sender_def missed_day_check_def
            update_user_def add_xp_eq accepted_row_def xp_outcome_def Let_def
            split_beta)
  next
    case False
    then have "missed_day_check cfg db' u uid today (now2 - 1) = Inr (db', [])" for db'
      by (auto simp: missed_day_check_def is_gap_def split: option.splits)
    then show ?thesis
      unfolding handle_joy_sticker_def g
      using False nd
      by (simp add: check_daily_sender_def add_daily_sender_def
            update_user_def add_xp_eq accepted_row_def xp_outcome_def Let_def
            split_beta)
  qed
qed

lemma handle_double:
  assumes u: "u = (case users db uid of None \<Rightarrow> default_user uid name | Some v \<Rightarrow> v)"
    and dup: "check_daily_sender db uid today"
  shows "handle_joy_sticker cfg db uid name today now2 now3 =
     Inr (db\<lparr>users := (users db)(uid \<mapsto> u\<lparr>streak := 0\<rparr>)\<rparr>,
          [Reaction BrokenHeart, DoubleJoyBreak (streak u)])"
proof -
  let ?db1 = "db\<lparr>users := (users db)(uid \<mapsto> u)\<rparr>"
  have g: "get_or_create_user db uid name = Inr (?db1, u)"
    using get_or_create_user_result [of db uid name] u by simp
  have c: "check_daily_sender ?db1 uid today"
    using dup by (simp add: check_daily_sender_def)
  show ?thesis
    unfolding handle_joy_sticker_def
    by (simp add: g c update_user_def Let_def)
qed

lemma accepted_row_fields:
  "streak (accepted_row cfg u today now2) = streak u + 1"
  "last_joy_sent (accepted_row cfg u today now2) = Some today"
  "hp (accepted_row cfg u today now2) = hp u"
  "xp (accepted_row cfg u today now2) =
     (if is_gap u today now2 then max 0 (max 0 (xp u - wrong_channel_xp_loss cfg) + joy_base_xp cfg)
      else max 0 (xp u + joy_base_xp cfg))"
  by (simp_all add: accepted_row_def xp_row_def Let_def)

lemma stats_update_server_streak:
  "stats (fst (update_server_streak db today now3)) =
     (if server_last_joy_sent (stats db) = Some today then stats db
      else if server_last_joy_sent (stats db) = Some (now3 - 1)
        then (stats db)\<lparr>server_streak := server_streak (stats db) + 1,
                         server_last_joy_sent := Some today\<rparr>
      else (stats db)\<lparr>server_streak := 1, server_last_joy_sent := Some today\<rparr>)"
  by (simp add: update_server_streak_def get_server_stats_def update_server_stats_def Let_def)

lemma other_update_server_streak:
  "users (fst (update_server_streak db today now3)) = users db"
  "daily_senders (fst (update_server_streak db today now3)) = daily_senders db"
  by (simp_all add: update_server_streak_def get_server_stats_def update_server_stats_def Let_def)

lemma msgs_update_server_streak:
  "snd (update_server_streak db today now3) =
     (if server_last_joy_sent (stats db) \<noteq> Some today
         \<and> server_last_joy_sent (stats db) \<noteq> Some (now3 - 1)
         \<and> 0 < server_streak (stats db)
      then [ServerStreakBroken (server_streak (stats db))] else [])"
  by (simp add: update_server_streak_def get_server_stats_def update_server_stats_def Let_def)

text \<open>Observers on the two shapes of outcome.\<close>

lemma user_after_accepted:
  assumes "u = (case users db uid of None \<Rightarrow> default_user uid name | Some v \<Rightarrow> v)"
    and "\<not> check_daily_sender db uid today"
  shows "user_after (handle_joy_sticker cfg db uid name today now2 now3) uid = Some (accepted_row cfg u today now2)"
  using handle_accepted [OF assms, of cfg]
  by (simp add: user_after_def Let_def split_beta other_update_server_streak)

lemma db_after_accepted:
  assumes "\<not> check_daily_sender db uid today"
  shows "\<exists>db'. db_after (handle_joy_sticker cfg db uid name today now2 now3) = Some db' \<and>
     daily_senders db' = daily_senders db @ [(uid, today)] \<and>
     stats db' = stats (fst (update_server_streak db today now3))"
  using handle_accepted [OF refl assms, of cfg name]
  by (simp add: db_after_def Let_def split_beta other_update_server_streak stats_update_server_streak)

lemma sent_accepted:
  assumes "u = (case users db uid of None \<Rightarrow> default_user uid name | Some v \<Rightarrow> v)"
    and "\<not> check_daily_sender db uid today"
  shows "sent (handle_joy_sticker cfg db uid name today now2 now3) =
           (if is_gap u today now2 then [MissedDayBreak (streak u) (wrong_channel_xp_loss cfg)] else [])
           @ snd (update_server_streak db today now3)
           @ [Reaction CheckMark,
              Response (build_response cfg u (joy_base_xp cfg) (level u)
                          (level (accepted_row cfg u today now2))
                          (streak u + 1 \<in> set [7, 30, 100, 365]) (streak u + 1))]"
  using handle_accepted [OF assms, of cfg]
  by (simp add: sent_def Let_def split_beta msgs_update_server_streak)

section \<open>Claims about the per-user streak\<close>

lemma example_user_row: "users example_db 1 = Some example_user"
  by (simp add: example_db_def)

text \<open>
  Claim C1 says that an event after a gap (last qualifying day neither yesterday nor today)
  resets the streak, subtracts the penalty, flags a break, and leaves the stored streak at 1.
  The handler evaluated where the claim is tested (last day three days ago, streak 12): no
  ledger row for the day, the break message with the old streak 12 and the penalty is sent,
  and the stored streak is 13, because \<^verbatim>\<open>new_streak = user['streak'] + 1\<close> reads the
  dictionary fetched before the reset. It is 13 as well when midnight passes after the
  first clock read.
\<close>

theorem gap_break_keeps_old_streak:
  "\<not> check_daily_sender example_db 1 10 \<and>
   map_option last_joy_sent (users example_db 1) = Some (Some (10 - 3)) \<and>
   map_option streak (users example_db 1) = Some 12 \<and>
   MissedDayBreak 12 10
     \<in> set (sent (handle_joy_sticker example_config example_db 1 ''ann'' 10 10 10)) \<and>
   map_option streak
     (user_after (handle_joy_sticker example_config example_db 1 ''ann'' 10 10 10) 1)
     = Some 13 \<and>
   map_option streak
     (user_after (handle_joy_sticker example_config example_db 1 ''ann'' 10 11 11) 1)
     = Some 13"
proof -
  have f: "\<not> check_daily_sender example_db 1 10"
    by (simp add: check_daily_sender_def example_db_def)
  have u: "example_user = (case users example_db 1 of None \<Rightarrow> default_user 1 ''ann'' | Some v \<Rightarrow> v)"
    by (simp add: example_user_row)
  have g: "is_gap example_user 10 10"
    by (simp add: is_gap_def example_user_def)
  have "user_after (handle_joy_sticker example_config example_db 1 ''ann'' 10 n2 n3) 1
      = Some (accepted_row example_config example_user 10 n2)" for n2 n3
    using u f by (rule user_after_accepted)
  moreover have "streak (accepted_row example_config example_user 10 n2) = 13" for n2
    by (simp add: accepted_row_fields example_user_def)
  moreover have "MissedDayBreak 12 10
      \<in> set (sent (handle_joy_sticker example_config example_db 1 ''ann'' 10 10 10))"
    using sent_accepted [OF u f, of example_config 10 10] g
    by (simp add: example_user_def example_config_def)
  ultimately show ?thesis
    using f by (simp add: example_user_row) (simp add: example_user_def)
qed

text \<open>
  Claim C3 says that an event dated before the user's last qualifying day is rejected with
  a StaleEvent signal and changes neither streak nor experience. The handler has no such
  outcome: an event dated 5 for a user whose last qualifying day is 7 changes both.
\<close>

theorem stale_event_counterexample:
  "map_option last_joy_sent (users example_db 1) = Some (Some (5 + 2)) \<and>
   map_option xp (users example_db 1) = Some 100 \<and>
   map_option streak (users example_db 1) = Some 12 \<and>
   map_option xp (user_after (handle_joy_sticker example_config example_db 1 ''ann'' 5 5 5) 1)
     = Some 110 \<and>
   map_option streak (user_after (handle_joy_sticker example_config example_db 1 ''ann'' 5 5 5) 1)
     = Some 13"
proof -
  have f: "\<not> check_daily_sender example_db 1 5"
    by (simp add: check_daily_sender_def example_db_def)
  have u: "example_user = (case users example_db 1 of None \<Rightarrow> default_user 1 ''ann'' | Some v \<Rightarrow> v)"
    by (simp add: example_user_row)
  have "user_after (handle_joy_sticker example_config example_db 1 ''ann'' 5 5 5) 1
      = Some (accepted_row example_config example_user 5 5)"
    using u f by (rule user_after_accepted)
  moreover have "streak (accepted_row example_config example_user 5 5) = 13"
    by (simp add: accepted_row_fields example_user_def)
  moreover have "xp (accepted_row example_config example_user 5 5) = 110"
    by (simp add: accepted_row_fields is_gap_def example_user_def example_config_def)
  ultimately show ?thesis
    by (simp add: example_user_row) (simp add: example_user_def)
qed

text \<open>
  Claim C3, amended. An event dated before the user's last qualifying day is not rejected.
  When the user has no ledger row for that date it is handled as a missed day: the break
  message is sent, the ledger gains the row, the last qualifying day is set to the event's
  date, and the experience is the old one minus the penalty, then plus the reward, each
  clamped at 0. This holds whatever the later clock reads give, as long as the second one
  is not beyond the day after the event's date.
\<close>

theorem stale_event_handled_as_gap:
  assumes "users db uid = Some u" and "last_joy_sent u = Some d" and "today < d"
    and "\<not> check_daily_sender db uid today" and "now2 \<le> today + 1"
  shows "MissedDayBreak (streak u) (wrong_channel_xp_loss cfg)
           \<in> set (sent (handle_joy_sticker cfg db uid name today now2 now3)) \<and>
         map_option last_joy_sent
           (user_after (handle_joy_sticker cfg db uid name today now2 now3) uid)
           = Some (Some today) \<and>
         map_option xp (user_after (handle_joy_sticker cfg db uid name today now2 now3) uid)
           = Some (max 0 (max 0 (xp u - wrong_channel_xp_loss cfg) + joy_base_xp cfg)) \<and>
         map_option daily_senders (db_after (handle_joy_sticker cfg db uid name today now2 now3))
           = Some (daily_senders db @ [(uid, today)])"
proof -
  have u: "u = (case users db uid of None \<Rightarrow> default_user uid name | Some v \<Rightarrow> v)"
    using assms(1) by simp
  have gap: "is_gap u today now2"
    using assms(2,3,5) by (simp add: is_gap_def)
  have "user_after (handle_joy_sticker cfg db uid name today now2 now3) uid
      = Some (accepted_row cfg u today now2)"
    using u assms(4) by (rule user_after_accepted)
  moreover have "MissedDayBreak (streak u) (wrong_channel_xp_loss cfg)
           \<in> set (sent (handle_joy_sticker cfg db uid name today now2 now3))"
    using sent_accepted [OF u assms(4), of cfg now2 now3] gap by simp
  moreover obtain db' where
      "db_after (handle_joy_sticker cfg db uid name today now2 now3) = Some db'"
      "daily_senders db' = daily_senders db @ [(uid, today)]"
    using db_after_accepted [OF assms(4), of cfg name now2 now3] by blast
  ultimately show ?thesis
    using gap by (simp add: accepted_row_fields)
qed

theorem stale_event_handled_as_gap_witness:
  "users example_db 1 = Some example_user \<and> last_joy_sent example_user = Some 7 \<and> (5::int) < 7 \<and>
   \<not> check_daily_sender example_db 1 5 \<and> (5::int) \<le> 5 + 1 \<and>
   MissedDayBreak 12 10
     \<in> set (sent (handle_joy_sticker example_config example_db 1 ''ann'' 5 5 5)) \<and>
   map_option last_joy_sent
     (user_after (handle_joy_sticker example_config example_db 1 ''ann'' 5 5 5) 1)
     = Some (Some 5) \<and>
   map_option xp (user_after (handle_joy_sticker example_config example_db 1 ''ann'' 5 5 5) 1)
     = Some 110 \<and>
   map_option daily_senders
     (db_after (handle_joy_sticker example_config example_db 1 ''ann'' 5 5 5))
     = Some [(1, 7), (1, 5)]"
proof -
  have a: "users example_db 1 = Some example_user" by (rule example_user_row)
  have b: "last_joy_sent example_user = Some 7" by (simp add: example_user_def)
  have c: "(5::int) < 7" by simp
  have d: "\<not> check_daily_sender example_db 1 5"
    by (simp add: check_daily_sender_def example_db_def)
  have e: "(5::int) \<le> 5 + 1" by simp
  show ?thesis
    using stale_event_handled_as_gap [OF a b c d e, of example_config "''ann''" 5] a b d
    by (simp add: example_user_def example_config_def example_db_def)
qed

lemma count_list_distinct: "distinct xs \<Longrightarrow> x \<in> set xs \<Longrightarrow> count_list xs x = 1"
  by (induction xs) auto

text \<open>
  Claim C4. For a user who already has a ledger row for today, a second qualifying event on
  the same day resets the streak to 0 and changes nothing else of the user's row (so no
  experience change); the ledger is left as it was and holds exactly one row for that user
  and day; the break notification shows the old streak. The ledger's primary key is the
  hypothesis \<open>distinct\<close>.
\<close>

theorem double_submission:
  assumes "users db uid = Some u" and "distinct (daily_senders db)"
    and "check_daily_sender db uid today"
  shows "user_after (handle_joy_sticker cfg db uid name today now2 now3) uid
           = Some (u\<lparr>streak := 0\<rparr>) \<and>
         map_option streak (user_after (handle_joy_sticker cfg db uid name today now2 now3) uid)
           = Some 0 \<and>
         map_option xp (user_after (handle_joy_sticker cfg db uid name today now2 now3) uid)
           = Some (xp u) \<and>
         map_option daily_senders (db_after (handle_joy_sticker cfg db uid name today now2 now3))
           = Some (daily_senders db) \<and>
         count_list (daily_senders db) (uid, today) = 1 \<and>
         sent (handle_joy_sticker cfg db uid name today now2 now3)
           = [Reaction BrokenHeart, DoubleJoyBreak (streak u)]"
proof -
  have u: "u = (case users db uid of None \<Rightarrow> default_user uid name | Some v \<Rightarrow> v)"
    using assms(1) by simp
  have h: "handle_joy_sticker cfg db uid name today now2 now3 =
     Inr (db\<lparr>users := (users db)(uid \<mapsto> u\<lparr>streak := 0\<rparr>)\<rparr>,
          [Reaction BrokenHeart, DoubleJoyBreak (streak u)])"
    using u assms(3) by (rule handle_double)
  have "count_list (daily_senders db) (uid, today) = 1"
    using assms(2,3) by (simp add: count_list_distinct check_daily_sender_def)
  then show ?thesis
    by (simp add: h user_after_def db_after_def sent_def)
qed

theorem double_submission_witness:
  "users example_db 1 = Some example_user \<and> distinct (daily_senders example_db) \<and>
   check_daily_sender example_db 1 7 \<and>
   map_option streak (user_after (handle_joy_sticker example_config example_db 1 ''ann'' 7 7 7) 1)
     = Some 0 \<and>
   map_option xp (user_after (handle_joy_sticker example_config example_db 1 ''ann'' 7 7 7) 1)
     = Some 100 \<and>
   map_option daily_senders
     (db_after (handle_joy_sticker example_config example_db 1 ''ann'' 7 7 7))
     = Some [(1, 7)] \<and>
   sent (handle_joy_sticker example_config example_db 1 ''ann'' 7 7 7)
     = [Reaction BrokenHeart, DoubleJoyBreak 12]"
proof -
  have a: "users example_db 1 = Some example_user" by (simp add: example_db_def)
  have b: "distinct (daily_senders example_db)" by (simp add: example_db_def)
  have c: "check_daily_sender example_db 1 7"
    by (simp add: check_daily_sender_def example_db_def)
  show ?thesis
    using double_submission [OF a b c, of example_config "''ann''" 7 7] a b c
    by (simp add: example_user_def example_db_def)
qed

section \<open>Claims about the community streak\<close>

lemma stats_after_handler:
  "map_option stats (db_after (handle_joy_sticker cfg db uid name today now2 now3)) =
     Some (if check_daily_sender db uid today then stats db
           else stats (fst (update_server_streak db today now3)))"
proof (cases "check_daily_sender db uid today")
  case True
  from handle_double [OF refl True, of cfg name now2 now3] show ?thesis
    using True by (simp add: db_after_def)
next
  case False
  from db_after_accepted [OF False, of cfg name now2 now3] show ?thesis
    using False by auto
qed

lemma server_broken_sent:
  "ServerStreakBroken k \<in> set (sent (handle_joy_sticker cfg db uid name today now2 now3)) \<longleftrightarrow>
     \<not> check_daily_sender db uid today
     \<and> ServerStreakBroken k \<in> set (snd (update_server_streak db today now3))"
proof (cases "check_daily_sender db uid today")
  case True
  from handle_double [OF refl True, of cfg name now2 now3] show ?thesis
    using True by (simp add: sent_def)
next
  case False
  from sent_accepted [OF refl False, of cfg name now2 now3] show ?thesis
    using False by auto
qed

lemma db_after_two_events:
  "db_after (two_events cfg db uid1 name1 uid2 name2 today) =
     (case db_after (handle_joy_sticker cfg db uid1 name1 today today today) of
        None \<Rightarrow> None
      | Some db1 \<Rightarrow> db_after (handle_joy_sticker cfg db1 uid2 name2 today today today))"
  by (simp add: two_events_def db_after_def split: sum.splits prod.splits)

lemma stats_after_two_events:
  assumes "\<not> check_daily_sender db uid1 today"
  shows "map_option stats (db_after (two_events cfg db uid1 name1 uid2 name2 today)) =
     Some (stats (fst (update_server_streak db today today)))"
proof -
  obtain db1 where d: "db_after (handle_joy_sticker cfg db uid1 name1 today today today) = Some db1"
      "stats db1 = stats (fst (update_server_streak db today today))"
    using db_after_accepted [OF assms, of cfg name1 today today] by blast
  then have l: "server_last_joy_sent (stats db1) = Some today"
    by (simp add: stats_update_server_streak)
  have "map_option stats (db_after (handle_joy_sticker cfg db1 uid2 name2 today today today))
      = Some (stats db1)"
    by (simp add: stats_after_handler stats_update_server_streak l)
  then show ?thesis
    by (simp add: db_after_two_events d)
qed

text \<open>
  Claim C5 says that on each qualifying event the community streak grows by 1 when its last
  day is yesterday. A double submission returns before the server streak block: user 1
  already has a ledger row for day 10, the last day is 9, and the event of day 10 leaves
  the streak at 3 and the last day at 9.
\<close>

theorem aggregate_streak_counterexample:
  "check_daily_sender lagging_db 1 10 \<and>
   server_last_joy_sent (stats lagging_db) = Some (10 - 1) \<and>
   server_streak (stats lagging_db) = 3 \<and>
   map_option server_streak
     (map_option stats (db_after (handle_joy_sticker example_config lagging_db 1 ''ann'' 10 10 10)))
     = Some 3 \<and>
   map_option server_last_joy_sent
     (map_option stats (db_after (handle_joy_sticker example_config lagging_db 1 ''ann'' 10 10 10)))
     = Some (Some 9)"
proof -
  have c: "check_daily_sender lagging_db 1 10"
    by (simp add: check_daily_sender_def lagging_db_def)
  have s: "stats lagging_db
      = \<lparr>server_streak = 3, server_last_joy_sent = Some 9, total_monsters_killed = 0\<rparr>"
    by (simp add: lagging_db_def)
  have "map_option stats (db_after (handle_joy_sticker example_config lagging_db 1 ''ann'' 10 10 10))
      = Some (stats lagging_db)"
    using c by (simp add: stats_after_handler)
  then obtain z where
      "db_after (handle_joy_sticker example_config lagging_db 1 ''ann'' 10 10 10) = Some z"
      "stats z = stats lagging_db"
    by auto
  then show ?thesis
    using c by (simp add: s)
qed

text \<open>
  Claim C5, amended. A double submission leaves the community streak and its last day
  unchanged and announces no break. For a qualifying event that is not a double submission
  (no ledger row for the user and today): if the last day is today the aggregate is
  unchanged and no break is announced; and, when the clock read of the server streak block
  gives the same day as the first read, if the last day is yesterday the streak grows by
  exactly 1, the last day becomes today, no break is announced, and after a second event of
  the same day by any user the streak is still the old one plus 1; otherwise the streak is
  set to 1 with the last day today, and the only break announced is the one with the old
  value, sent exactly when the old value was positive.
\<close>

theorem aggregate_streak_transition:
  "(check_daily_sender db uid today \<longrightarrow>
      map_option stats (db_after (handle_joy_sticker cfg db uid name today now2 now3))
        = Some (stats db) \<and>
      (\<forall>k. ServerStreakBroken k
         \<notin> set (sent (handle_joy_sticker cfg db uid name today now2 now3)))) \<and>
   (\<not> check_daily_sender db uid today \<longrightarrow>
      (server_last_joy_sent (stats db) = Some today \<longrightarrow>
         map_option stats (db_after (handle_joy_sticker cfg db uid name today now2 now3))
           = Some (stats db) \<and>
         (\<forall>k. ServerStreakBroken k
            \<notin> set (sent (handle_joy_sticker cfg db uid name today now2 now3)))) \<and>
      (server_last_joy_sent (stats db) = Some (today - 1) \<longrightarrow>
         map_option stats (db_after (handle_joy_sticker cfg db uid name today now2 today))
           = Some ((stats db)\<lparr>server_streak := server_streak (stats db) + 1,
                                server_last_joy_sent := Some today\<rparr>) \<and>
         (\<forall>k. ServerStreakBroken k
            \<notin> set (sent (handle_joy_sticker cfg db uid name today now2 today))) \<and>
         map_option stats (db_after (two_events cfg db uid name uid2 name2 today))
           = Some ((stats db)\<lparr>server_streak := server_streak (stats db) + 1,
                                server_last_joy_sent := Some today\<rparr>)) \<and>
      (server_last_joy_sent (stats db) \<noteq> Some today \<and>
       server_last_joy_sent (stats db) \<noteq> Some (today - 1) \<longrightarrow>
         map_option stats (db_after (handle_joy_sticker cfg db uid name today now2 today))
           = Some ((stats db)\<lparr>server_streak := 1, server_last_joy_sent := Some today\<rparr>) \<and>
         (\<forall>k. ServerStreakBroken k
                \<in> set (sent (handle_joy_sticker cfg db uid name today now2 today))
              \<longleftrightarrow> k = server_streak (stats db) \<and> 0 < server_streak (stats db))))"
proof (intro conjI impI allI)
  {
    assume c: "check_daily_sender db uid today"
    show "map_option stats (db_after (handle_joy_sticker cfg db uid name today now2 now3))
        = Some (stats db)"
      using c by (simp add: stats_after_handler)
    fix k
    show "ServerStreakBroken k \<notin> set (sent (handle_joy_sticker cfg db uid name today now2 now3))"
      using c by (simp add: server_broken_sent)
  }
  assume f: "\<not> check_daily_sender db uid today"
  {
    assume t: "server_last_joy_sent (stats db) = Some today"
    show "map_option stats (db_after (handle_joy_sticker cfg db uid name today now2 now3))
        = Some (stats db)"
      using t by (simp add: stats_after_handler stats_update_server_streak)
    fix k
    show "ServerStreakBroken k \<notin> set (sent (handle_joy_sticker cfg db uid name today now2 now3))"
      using t by (simp add: server_broken_sent msgs_update_server_streak)
  }
  {
    assume y: "server_last_joy_sent (stats db) = Some (today - 1)"
    show "map_option stats (db_after (handle_joy_sticker cfg db uid name today now2 today))
           = Some ((stats db)\<lparr>server_streak := server_streak (stats db) + 1,
                                server_last_joy_sent := Some today\<rparr>)"
      using y f by (simp add: stats_after_handler stats_update_server_streak)
    show "map_option stats (db_after (two_events cfg db uid name uid2 name2 today))
           = Some ((stats db)\<lparr>server_streak := server_streak (stats db) + 1,
                                server_last_joy_sent := Some today\<rparr>)"
      using y f by (simp add: stats_after_two_events stats_update_server_streak)
    fix k
    show "ServerStreakBroken k \<notin> set (sent (handle_joy_sticker cfg db uid name today now2 today))"
      using y by (simp add: server_broken_sent msgs_update_server_streak)
  }
  {
    assume o: "server_last_joy_sent (stats db) \<noteq> Some today \<and>
       server_last_joy_sent (stats db) \<noteq> Some (today - 1)"
    show "map_option stats (db_after (handle_joy_sticker cfg db uid name today now2 today))
           = Some ((stats db)\<lparr>server_streak := 1, server_last_joy_sent := Some today\<rparr>)"
      using o f by (simp add: stats_after_handler stats_update_server_streak)
    fix k
    show "ServerStreakBroken k \<in> set (sent (handle_joy_sticker cfg db uid name today now2 today))
              \<longleftrightarrow> k = server_streak (stats db) \<and> 0 < server_streak (stats db)"
      using o f by (auto simp: server_broken_sent msgs_update_server_streak)
  }
qed

theorem aggregate_streak_transition_witness:
  "check_daily_sender example_db 1 7 \<and>
   \<not> check_daily_sender example_db 2 7 \<and> \<not> check_daily_sender example_db 2 8 \<and>
   \<not> check_daily_sender example_db 2 10 \<and>
   server_last_joy_sent (stats example_db) = Some 7 \<and>
   map_option stats (db_after (handle_joy_sticker example_config example_db 1 ''ann'' 7 7 7))
     = Some \<lparr>server_streak = 3, server_last_joy_sent = Some 7, total_monsters_killed = 0\<rparr> \<and>
   map_option stats (db_after (handle_joy_sticker example_config example_db 2 ''bob'' 7 7 7))
     = Some \<lparr>server_streak = 3, server_last_joy_sent = Some 7, total_monsters_killed = 0\<rparr> \<and>
   map_option stats (db_after (handle_joy_sticker example_config example_db 2 ''bob'' 8 8 8))
     = Some \<lparr>server_streak = 4, server_last_joy_sent = Some 8, total_monsters_killed = 0\<rparr> \<and>
   map_option stats (db_after (two_events example_config example_db 2 ''bob'' 1 ''ann'' 8))
     = Some \<lparr>server_streak = 4, server_last_joy_sent = Some 8, total_monsters_killed = 0\<rparr> \<and>
   map_option stats (db_after (handle_joy_sticker example_config example_db 2 ''bob'' 10 10 10))
     = Some \<lparr>server_streak = 1, server_last_joy_sent = Some 10, total_monsters_killed = 0\<rparr> \<and>
   ServerStreakBroken 3
     \<in> set (sent (handle_joy_sticker example_config example_db 2 ''bob'' 10 10 10)) \<and>
   ServerStreakBroken 3
     \<notin> set (sent (handle_joy_sticker example_config example_db 2 ''bob'' 8 8 8))"
proof -
  have c: "check_daily_sender example_db 1 7" "\<not> check_daily_sender example_db 2 7"
      "\<not> check_daily_sender example_db 2 8" "\<not> check_daily_sender example_db 2 10"
    by (simp_all add: check_daily_sender_def example_db_def)
  have s: "stats example_db
      = \<lparr>server_streak = 3, server_last_joy_sent = Some 7, total_monsters_killed = 0\<rparr>"
    by (simp add: example_db_def)
  show ?thesis
    using aggregate_streak_transition [of example_db 1 7 example_config "''ann''" 7 7 2 "''bob''"]
      aggregate_streak_transition [of example_db 2 7 example_config "''bob''" 7 7 1 "''ann''"]
      aggregate_streak_transition [of example_db 2 8 example_config "''bob''" 8 8 1 "''ann''"]
      aggregate_streak_transition [of example_db 2 10 example_config "''bob''" 10 10 1 "''ann''"]
      c
    by (simp add: s)
qed

section \<open>Claims about the User entity\<close>

lemma example_absent: "users example_db 2 = None"
  by (simp add: example_db_def)

text \<open>
  Claim C2 says that user creation and every mutation keep \<open>max_hp\<close> equal to the HP
  formula and \<open>hp\<close> within \<open>[0, max_hp]\<close>. A user created by \<^verbatim>\<open>get_or_create_user\<close> has
  \<open>max_hp = 100\<close> at level 1 with no class, where the formula gives 10; and the first
  60 experience points through \<^verbatim>\<open>give_xp\<close> take that user to level 2 with
  \<open>max_hp = 20\<close> and \<open>hp\<close> still 100.
\<close>

theorem user_invariant_counterexample:
  "users example_db 2 = None \<and>
   get_or_create_user example_db 2 ''bob''
     = Inr (example_db\<lparr>users := (users example_db)(2 \<mapsto> default_user 2 ''bob'')\<rparr>,
            default_user 2 ''bob'') \<and>
   max_hp (default_user 2 ''bob'') = 100 \<and>
   calculate_max_hp (level (default_user 2 ''bob'')) (user_class (default_user 2 ''bob'')) = 10 \<and>
   \<not> max_hp_exact (default_user 2 ''bob'') \<and>
   map_option hp (user_after (give_xp example_db 2 ''bob'' 60) 2) = Some 100 \<and>
   map_option max_hp (user_after (give_xp example_db 2 ''bob'' 60) 2) = Some 20 \<and>
   map_option hp_in_range (user_after (give_xp example_db 2 ''bob'' 60) 2) = Some False"
proof -
  have g: "get_or_create_user example_db 2 ''bob''
     = Inr (example_db\<lparr>users := (users example_db)(2 \<mapsto> default_user 2 ''bob'')\<rparr>,
            default_user 2 ''bob'')"
    using get_or_create_user_result [of example_db 2 "''bob''"] by (simp add: example_absent)
  have d: "max_hp (default_user 2 ''bob'') = 100"
      "calculate_max_hp (level (default_user 2 ''bob'')) (user_class (default_user 2 ''bob'')) = 10"
    by (simp_all add: default_user_def calculate_max_hp_def)
  have l: "level_closed 60 = 2" by (simp add: level_closed_def)
  have x: "user_after (give_xp example_db 2 ''bob'' 60) 2 = Some (xp_row (default_user 2 ''bob'') 60)"
    by (simp add: give_xp_def g add_xp_eq user_after_def)
  have r: "hp (xp_row (default_user 2 ''bob'') 60) = 100"
      "max_hp (xp_row (default_user 2 ''bob'') 60) = 20"
    by (simp_all add: xp_row_def default_user_def l calculate_max_hp_def)
  show ?thesis
    using g d by (simp add: example_absent max_hp_exact_def x r hp_in_range_def)
qed

lemma xp_row_level_ge_1: "1 \<le> level (xp_row u a)"
  by (simp add: xp_row_def Let_def level_closed_ge_1)

lemma class_hp_values:
  "class_hp k = Some (b, p) \<Longrightarrow> 70 \<le> b \<and> 7 \<le> p"
  by (auto simp: class_hp_def split: if_splits)

lemma calculate_max_hp_nonneg: "0 \<le> L \<Longrightarrow> 0 \<le> calculate_max_hp L c"
proof (cases c)
  case None
  assume "0 \<le> L"
  with None show ?thesis by (simp add: calculate_max_hp_def)
next
  case (Some k)
  assume L: "0 \<le> L"
  show ?thesis
  proof (cases "class_hp k")
    case None
    with Some L show ?thesis by (simp add: calculate_max_hp_def)
  next
    case inner: (Some bp)
    obtain b p where bp: "bp = (b, p)" by (cases bp)
    with inner have "70 \<le> b \<and> 7 \<le> p" by (simp add: class_hp_values)
    then show ?thesis
      using Some inner bp L by (auto simp: calculate_max_hp_def)
  qed
qed

lemma calculate_max_hp_mono:
  assumes "a \<le> b"
  shows "calculate_max_hp a c \<le> calculate_max_hp b c"
proof (cases c)
  case None
  with assms show ?thesis by (simp add: calculate_max_hp_def)
next
  case (Some k)
  show ?thesis
  proof (cases "class_hp k")
    case None
    with Some assms show ?thesis by (simp add: calculate_max_hp_def)
  next
    case inner: (Some bp)
    obtain base per where bp: "bp = (base, per)" by (cases bp)
    with inner have v: "70 \<le> base \<and> 7 \<le> per" by (simp add: class_hp_values)
    have m: "(a - 3) * per \<le> (b - 3) * per"
      using assms v by (intro mult_right_mono) simp_all
    have z: "\<not> b < 3 \<Longrightarrow> 0 \<le> (b - 3) * per"
      using v by simp
    show ?thesis
      using Some inner bp assms v m z by (fastforce simp: calculate_max_hp_def)
  qed
qed

lemma xp_row_exact: "max_hp_exact u \<Longrightarrow> max_hp_exact (xp_row u a)"
  by (simp add: max_hp_exact_def xp_row_def Let_def)

lemma xp_row_in_range:
  assumes "max_hp_exact u" and "hp_in_range u" and "level u \<le> level (xp_row u a)"
  shows "hp_in_range (xp_row u a)"
proof -
  have e: "max_hp (xp_row u a) = calculate_max_hp (level (xp_row u a)) (user_class u)"
    using xp_row_exact [OF assms(1), of a]
    by (simp add: max_hp_exact_def) (simp add: xp_row_def Let_def)
  have "max_hp u \<le> max_hp (xp_row u a)"
    using assms(1,3) calculate_max_hp_mono [of "level u" "level (xp_row u a)" "user_class u"]
    by (simp add: e max_hp_exact_def)
  moreover have "hp (xp_row u a) = hp u" by (simp add: xp_row_def Let_def)
  ultimately show ?thesis
    using assms(2) by (simp add: hp_in_range_def)
qed

text \<open>
  Claim C2, amended. A created user has level 1 and \<open>hp = max_hp = 100\<close>, so \<open>hp\<close> lies
  in \<open>[0, max_hp]\<close>. \<^verbatim>\<open>add_xp\<close> leaves the level at 1 or more, makes \<open>max_hp\<close> equal to
  the HP formula whenever the level changes, and keeps it equal once it is; from a row
  whose \<open>max_hp\<close> is the formula's and whose \<open>hp\<close> is in range, \<open>hp\<close> stays in
  \<open>[0, max_hp]\<close> whenever the level does not drop. \<^verbatim>\<open>set_user_class\<close> sets \<open>max_hp\<close> to
  the formula for the new class and \<open>hp\<close> to the new \<open>max_hp\<close>, which puts \<open>hp\<close> in range
  for a level that is not negative.
\<close>

theorem user_invariant_by_operation:
  "hp_in_range (default_user uid name) \<and>
   level (default_user uid name) = 1 \<and> hp (default_user uid name) = 100 \<and>
   max_hp (default_user uid name) = 100 \<and>
   (users db uid = Some u \<longrightarrow>
      (\<exists>u'. user_after (add_xp db uid a) uid = Some u' \<and>
         1 \<le> level u' \<and>
         (level u' \<noteq> level u \<longrightarrow> max_hp_exact u') \<and>
         (max_hp_exact u \<longrightarrow> max_hp_exact u') \<and>
         (max_hp_exact u \<and> hp_in_range u \<and> level u \<le> level u' \<longrightarrow> hp_in_range u')) \<and>
      (\<exists>u'. users (set_user_class db uid c) uid = Some u' \<and>
         max_hp_exact u' \<and> hp u' = max_hp u' \<and> (0 \<le> level u \<longrightarrow> hp_in_range u')))"
proof (intro conjI impI)
  show "hp_in_range (default_user uid name)" by (simp add: hp_in_range_def default_user_def)
  show "level (default_user uid name) = 1" "hp (default_user uid name) = 100"
    "max_hp (default_user uid name) = 100"
    by (simp_all add: default_user_def)
  assume u: "users db uid = Some u"
  have "user_after (add_xp db uid a) uid = Some (xp_row u a)"
    using u by (simp add: add_xp_eq user_after_def)
  moreover have "1 \<le> level (xp_row u a)" by (rule xp_row_level_ge_1)
  moreover have "level (xp_row u a) \<noteq> level u \<longrightarrow> max_hp_exact (xp_row u a)"
    by (simp add: max_hp_exact_def xp_row_def Let_def)
  moreover have "max_hp_exact u \<longrightarrow> max_hp_exact (xp_row u a)"
    by (simp add: xp_row_exact)
  moreover have "max_hp_exact u \<and> hp_in_range u \<and> level u \<le> level (xp_row u a)
      \<longrightarrow> hp_in_range (xp_row u a)"
    by (simp add: xp_row_in_range)
  ultimately show "\<exists>u'. user_after (add_xp db uid a) uid = Some u' \<and>
         1 \<le> level u' \<and>
         (level u' \<noteq> level u \<longrightarrow> max_hp_exact u') \<and>
         (max_hp_exact u \<longrightarrow> max_hp_exact u') \<and>
         (max_hp_exact u \<and> hp_in_range u \<and> level u \<le> level u' \<longrightarrow> hp_in_range u')"
    by blast
  let ?u = "u\<lparr>user_class := Some c, max_hp := calculate_max_hp (level u) (Some c),
              hp := calculate_max_hp (level u) (Some c)\<rparr>"
  have "users (set_user_class db uid c) uid = Some ?u"
    using u by (simp add: set_user_class_def get_user_def update_user_def Let_def)
  moreover have "max_hp_exact ?u" by (simp add: max_hp_exact_def)
  moreover have "hp ?u = max_hp ?u" by simp
  moreover have "0 \<le> level u \<longrightarrow> hp_in_range ?u"
    by (simp add: hp_in_range_def calculate_max_hp_nonneg)
  ultimately show "\<exists>u'. users (set_user_class db uid c) uid = Some u' \<and>
         max_hp_exact u' \<and> hp u' = max_hp u' \<and> (0 \<le> level u \<longrightarrow> hp_in_range u')"
    by blast
qed

theorem user_invariant_by_operation_witness:
  "users example_db 1 = Some example_user \<and> max_hp_exact example_user \<and>
   hp_in_range example_user \<and> level example_user = 2 \<and>
   (\<exists>u'. user_after (add_xp example_db 1 50) 1 = Some u' \<and>
         level u' = 3 \<and> max_hp u' = 30 \<and> hp u' = 20 \<and>
         max_hp_exact u' \<and> hp_in_range u') \<and>
   (\<exists>u'. users (set_user_class example_db 1 ''pit_wizard'') 1 = Some u' \<and>
         max_hp_exact u' \<and> hp u' = max_hp u' \<and> hp_in_range u')"
proof -
  have a: "users example_db 1 = Some example_user" by (simp add: example_db_def)
  have b: "max_hp_exact example_user"
    by (simp add: max_hp_exact_def example_user_def calculate_max_hp_def)
  have c: "hp_in_range example_user" "level example_user = 2"
    by (simp_all add: hp_in_range_def example_user_def)
  have l: "level_closed 150 = 3" by (simp add: level_closed_def)
  have r: "user_after (add_xp example_db 1 50) 1 = Some (xp_row example_user 50)"
    using a by (simp add: add_xp_eq user_after_def)
  have f: "level (xp_row example_user 50) = 3" "max_hp (xp_row example_user 50) = 30"
      "hp (xp_row example_user 50) = 20"
    by (simp_all add: xp_row_def example_user_def l calculate_max_hp_def)
  show ?thesis
    using user_invariant_by_operation [of 1 "''ann''" example_db example_user 50 "''pit_wizard''"]
      a b c r f
    by auto
qed

section \<open>Claims about absent users\<close>

lemma user_after_handler_exists:
  "user_after (handle_joy_sticker cfg db uid name today now2 now3) uid \<noteq> None"
proof (cases "check_daily_sender db uid today")
  case True
  from handle_double [OF refl True, of cfg name now2 now3] show ?thesis
    by (simp add: user_after_def)
next
  case False
  from user_after_accepted [OF refl False, of cfg name now2 now3] show ?thesis by simp
qed

text \<open>
  Claim C9 says that every user-scoped mutation on an absent user first creates the user
  with the defaults. \<^verbatim>\<open>add_xp\<close>, \<^verbatim>\<open>damage_user\<close> and \<^verbatim>\<open>heal_user\<close> return \<^verbatim>\<open>None\<close>
  and leave the tables as they were.
\<close>
theorem absent_user_counterexample:
  "users example_db 2 = None \<and>
   add_xp example_db 2 10 = Inr (example_db, None) \<and>
   damage_user example_db 2 10 = (example_db, None) \<and>
   heal_user example_db 2 10 = (example_db, None) \<and>
   user_after (add_xp example_db 2 10) 2 = None"
proof -
  have a: "users example_db 2 = None" by (simp add: example_db_def)
  then show ?thesis
    by (simp add: add_xp_eq damage_user_def heal_user_def get_user_def user_after_def)
qed

text \<open>
  Claim C9, amended. For an absent user, \<^verbatim>\<open>get_or_create_user\<close> inserts the default row
  (level 1, xp 0, hp 100, max_hp 100, coins 0); the callers that start with it,
  \<^verbatim>\<open>handle_joy_sticker\<close>, \<^verbatim>\<open>claim_coins\<close> and \<^verbatim>\<open>give_xp\<close>, behave as on the state that
  already holds that row and leave the user present. The database operations
  \<^verbatim>\<open>add_xp\<close>, \<^verbatim>\<open>damage_user\<close>, \<^verbatim>\<open>heal_user\<close> and \<^verbatim>\<open>set_user_class\<close> change nothing and
  return \<^verbatim>\<open>None\<close>, and \<^verbatim>\<open>reset_user\<close> changes nothing.
\<close>

theorem absent_user_created_by_callers:
  assumes "users db uid = None"
  shows
   "get_or_create_user db uid name
      = Inr (db\<lparr>users := (users db)(uid \<mapsto> default_user uid name)\<rparr>, default_user uid name) \<and>
    level (default_user uid name) = 1 \<and> xp (default_user uid name) = 0 \<and>
    hp (default_user uid name) = 100 \<and> max_hp (default_user uid name) = 100 \<and>
    coins (default_user uid name) = 0 \<and>
    handle_joy_sticker cfg db uid name today now2 now3
      = handle_joy_sticker cfg (db\<lparr>users := (users db)(uid \<mapsto> default_user uid name)\<rparr>)
          uid name today now2 now3 \<and>
    claim_coins cfg db uid name today
      = claim_coins cfg (db\<lparr>users := (users db)(uid \<mapsto> default_user uid name)\<rparr>)
          uid name today \<and>
    give_xp db uid name a
      = give_xp (db\<lparr>users := (users db)(uid \<mapsto> default_user uid name)\<rparr>) uid name a \<and>
    user_after (handle_joy_sticker cfg db uid name today now2 now3) uid \<noteq> None \<and>
    user_after (claim_coins cfg db uid name today) uid \<noteq> None \<and>
    user_after (give_xp db uid name a) uid \<noteq> None \<and>
    add_xp db uid a = Inr (db, None) \<and>
    damage_user db uid a = (db, None) \<and>
    heal_user db uid a = (db, None) \<and>
    set_user_class db uid c = db \<and>
    reset_user db uid = db"
proof -
  let ?db = "db\<lparr>users := (users db)(uid \<mapsto> default_user uid name)\<rparr>"
  have g: "get_or_create_user db uid name = Inr (?db, default_user uid name)"
    using get_or_create_user_result [of db uid name] assms by simp
  have g': "get_or_create_user ?db uid name = Inr (?db, default_user uid name)"
    using get_or_create_user_result [of ?db uid name] by simp
  have d: "level (default_user uid name) = 1" "xp (default_user uid name) = 0"
    "hp (default_user uid name) = 100" "max_hp (default_user uid name) = 100"
    "coins (default_user uid name) = 0"
    by (simp_all add: default_user_def)
  have h: "handle_joy_sticker cfg db uid name today now2 now3 = handle_joy_sticker cfg ?db uid name today now2 now3"
    by (simp add: handle_joy_sticker_def g g')
  have c: "claim_coins cfg db uid name today = claim_coins cfg ?db uid name today"
    by (simp add: claim_coins_def g g')
  have x: "give_xp db uid name a = give_xp ?db uid name a"
    by (simp add: give_xp_def g g')
  have uc: "user_after (claim_coins cfg db uid name today) uid \<noteq> None"
    by (simp add: claim_coins_def g user_after_def update_user_def Let_def)
  have ux: "user_after (give_xp db uid name a) uid \<noteq> None"
    by (simp add: give_xp_def g add_xp_eq user_after_def)
  have n: "add_xp db uid a = Inr (db, None)" "damage_user db uid a = (db, None)"
    "heal_user db uid a = (db, None)" "set_user_class db uid c = db"
    using assms
    by (simp_all add: add_xp_eq damage_user_def heal_user_def set_user_class_def get_user_def)
  have "(users db)(uid := None) = users db"
    using assms by (simp add: fun_upd_idem)
  then have r: "reset_user db uid = db" by (simp add: reset_user_def)
  show ?thesis
    using g d h c x user_after_handler_exists [of cfg db uid name today now2 now3] uc ux n r
    by simp
qed

theorem absent_user_created_by_callers_witness:
  "users example_db 2 = None \<and>
   get_or_create_user example_db 2 ''bob''
      = Inr (example_db\<lparr>users := (users example_db)(2 \<mapsto> default_user 2 ''bob'')\<rparr>,
             default_user 2 ''bob'') \<and>
   user_after (handle_joy_sticker example_config example_db 2 ''bob'' 8 8 8) 2 \<noteq> None \<and>
   user_after (claim_coins example_config example_db 2 ''bob'' 8) 2 \<noteq> None \<and>
   user_after (give_xp example_db 2 ''bob'' 30) 2 \<noteq> None \<and>
   add_xp example_db 2 30 = Inr (example_db, None) \<and>
   damage_user example_db 2 30 = (example_db, None) \<and>
   heal_user example_db 2 30 = (example_db, None) \<and>
   reset_user example_db 2 = example_db"
proof -
  have a: "users example_db 2 = None" by (simp add: example_db_def)
  show ?thesis
    using absent_user_created_by_callers [OF a, of "''bob''" example_config 8 8 8 30 "''pit_wizard''"] a
    by blast
qed

end
